theory Spec2Isabelle
  imports Complex_Main "HOL-Library.Word"
begin

section \<open>Vectors and matrices\<close>

text \<open>
  The C++ \<open>float\<close> is idealised as \<open>real\<close>. The registry operations only copy such
  values; the transform composer computes with them.

  A \<open>glm::mat4\<close> is four columns: \<open>m[i]\<close> is column \<open>i\<close>.
\<close>

datatype vec3 = vec3 real real real

datatype vec4 = vec4 real real real real

datatype mat4 = mat4 vec4 vec4 vec4 vec4

fun vec4_add :: "vec4 \<Rightarrow> vec4 \<Rightarrow> vec4" where
  "vec4_add (vec4 a b c d) (vec4 a' b' c' d') = vec4 (a + a') (b + b') (c + c') (d + d')"

fun vec4_scale :: "vec4 \<Rightarrow> real \<Rightarrow> vec4" where
  "vec4_scale (vec4 a b c d) s = vec4 (a * s) (b * s) (c * s) (d * s)"

text \<open>
  Modelled from the spec: the matrix type and the functions \<open>glm::radians\<close>, \<open>glm::scale\<close>,
  \<open>glm::rotate\<close> and \<open>glm::translate\<close> belong to the GLM library, whose code is not
  part of \<open>SceneManager.cpp\<close>. The spec names them the scale, rotate-X/Y/Z and translate matrices and their
  product; the definitions below are the ones of GLM (\<open>operator*\<close> of \<open>mat4\<close> with \<open>vec4\<close>
  and with \<open>mat4\<close>, and the one-matrix builders of \<open>glm/gtx/transform.hpp\<close>, which start
  from the identity).
\<close>

fun mat_vec :: "mat4 \<Rightarrow> vec4 \<Rightarrow> vec4" where
  "mat_vec (mat4 m0 m1 m2 m3) (vec4 a b c d) =
     vec4_add (vec4_add (vec4_add (vec4_scale m0 a) (vec4_scale m1 b)) (vec4_scale m2 c))
       (vec4_scale m3 d)"

instantiation mat4 :: times
begin

fun times_mat4 :: "mat4 \<Rightarrow> mat4 \<Rightarrow> mat4" where
  "times_mat4 m1 (mat4 c0 c1 c2 c3) =
     mat4 (mat_vec m1 c0) (mat_vec m1 c1) (mat_vec m1 c2) (mat_vec m1 c3)"

instance ..

end

definition mat4_identity :: mat4 where
  "mat4_identity = mat4 (vec4 1 0 0 0) (vec4 0 1 0 0) (vec4 0 0 1 0) (vec4 0 0 0 1)"

definition glm_radians :: "real \<Rightarrow> real" where
  "glm_radians degrees = degrees * (pi / 180)"

fun glm_normalize :: "vec3 \<Rightarrow> vec3" where
  "glm_normalize (vec3 a b c) =
     (let inv = 1 / sqrt (a * a + b * b + c * c) in vec3 (a * inv) (b * inv) (c * inv))"

fun glm_scale :: "vec3 \<Rightarrow> mat4" where
  "glm_scale (vec3 a b c) = mat4 (vec4 a 0 0 0) (vec4 0 b 0 0) (vec4 0 0 c 0) (vec4 0 0 0 1)"

fun glm_translate :: "vec3 \<Rightarrow> mat4" where
  "glm_translate (vec3 a b c) =
     mat4 (vec4 1 0 0 0) (vec4 0 1 0 0) (vec4 0 0 1 0) (vec4 a b c 1)"

definition glm_rotate :: "real \<Rightarrow> vec3 \<Rightarrow> mat4" where
  "glm_rotate angle v =
     (let c = cos angle; s = sin angle in
      case glm_normalize v of vec3 a0 a1 a2 \<Rightarrow>
        let t0 = (1 - c) * a0; t1 = (1 - c) * a1; t2 = (1 - c) * a2 in
        mat4 (vec4 (c + t0 * a0) (t0 * a1 + s * a2) (t0 * a2 - s * a1) 0)
             (vec4 (t1 * a0 - s * a2) (c + t1 * a1) (t1 * a2 + s * a0) 0)
             (vec4 (t2 * a0 + s * a1) (t2 * a1 - s * a0) (c + t2 * a2) 0)
             (vec4 0 0 0 1))"

section \<open>Data model of the scene manager\<close>

type_synonym GLuint = "32 word"

text \<open>
  \<open>OBJECT_MATERIAL\<close> and \<open>TEXTURE_INFO\<close> are declared in \<open>SceneManager.h\<close>; their fields
  are the ones \<open>SceneManager.cpp\<close> reads and writes.
\<close>

record OBJECT_MATERIAL =
  ambientColor :: vec3
  ambientStrength :: real
  diffuseColor :: vec3
  specularColor :: vec3
  shininess :: real
  tag :: string

record TEXTURE_INFO =
  ID :: GLuint
  tag :: string

text \<open>
  Modelled from the spec: the class \<open>ShaderManager\<close> and its \<open>setMat4Value\<close> are declared
  outside \<open>SceneManager.cpp\<close>. The spec describes the shader manager as an external
  collaborator into which uniform values are written by well-known names; of its state
  only those named values are kept here.
\<close>

datatype uniform = Mat4Value mat4

type_synonym ShaderManager = "string \<Rightarrow> uniform option"

definition setMat4Value :: "string \<Rightarrow> mat4 \<Rightarrow> ShaderManager \<Rightarrow> ShaderManager" where
  "setMat4Value name v sh = sh(name \<mapsto> Mat4Value v)"

text \<open>
  The members of \<open>SceneManager\<close>. \<open>m_pShaderManager\<close> is a pointer that may be \<open>NULL\<close>
  (\<open>None\<close>); \<open>m_textureIDs\<close> is a fixed-size array, a list whose length is the slot count;
  \<open>m_loadedTextures\<close> is an \<open>int\<close>; \<open>m_objectMaterials\<close> is a \<open>std::vector\<close>.
\<close>

record SceneManager =
  m_pShaderManager :: "ShaderManager option"
  m_textureIDs :: "TEXTURE_INFO list"
  m_loadedTextures :: int
  m_objectMaterials :: "OBJECT_MATERIAL list"

text \<open>
  Indexing the array outside its bounds is undefined behaviour in C++; the model makes it
  a fault.
\<close>

datatype fault = OutOfBounds

definition array_at :: "'a list \<Rightarrow> int \<Rightarrow> fault + 'a" where
  "array_at xs i = (if 0 \<le> i \<and> i < int (length xs) then Inr (xs ! nat i) else Inl OutOfBounds)"

definition array_put :: "'a list \<Rightarrow> int \<Rightarrow> 'a \<Rightarrow> fault + 'a list" where
  "array_put xs i v =
     (if 0 \<le> i \<and> i < int (length xs) then Inr (xs[nat i := v]) else Inl OutOfBounds)"

section \<open>The OpenGL texture state\<close>

text \<open>
  The part of the OpenGL context that the texture calls of \<open>SceneManager.cpp\<close> touch:
  the texture names handed out so far, the names released, the active texture unit, the
  \<open>GL_TEXTURE_2D\<close> binding of every unit, and the texture objects. Which unused name
  \<open>glGenTextures\<close> hands out is the driver's choice, \<open>gl_pick\<close>.
\<close>

datatype gl_pname =
  GL_TEXTURE_WRAP_S | GL_TEXTURE_WRAP_T | GL_TEXTURE_MIN_FILTER | GL_TEXTURE_MAG_FILTER

datatype gl_pvalue = GL_REPEAT | GL_LINEAR

datatype gl_internalformat = GL_RGB8 | GL_RGBA8

datatype gl_format = GL_RGB | GL_RGBA

record gl_image =
  img_internalformat :: gl_internalformat
  img_width :: int
  img_height :: int
  img_format :: gl_format
  img_pixels :: "8 word list"

record gl_texture =
  tex_params :: "gl_pname \<Rightarrow> gl_pvalue option"
  tex_image :: "gl_image option"
  tex_mipmaps :: bool

record gl_state =
  gl_pick :: "GLuint list \<Rightarrow> GLuint"
  gl_names :: "GLuint list"
  gl_deleted :: "GLuint list"
  gl_active :: int
  gl_binding :: "int \<Rightarrow> GLuint"
  gl_objects :: "GLuint \<Rightarrow> gl_texture"

definition glGenTextures :: "gl_state \<Rightarrow> GLuint \<times> gl_state" where
  "glGenTextures gl =
     (let n = gl_pick gl (gl_names gl) in (n, gl\<lparr>gl_names := gl_names gl @ [n]\<rparr>))"

text \<open>The call that releases a name. \<open>SceneManager.cpp\<close> never makes it.\<close>

definition glDeleteTextures :: "GLuint \<Rightarrow> gl_state \<Rightarrow> gl_state" where
  "glDeleteTextures n gl = gl\<lparr>gl_deleted := gl_deleted gl @ [n]\<rparr>"

text \<open>\<open>glActiveTexture(GL_TEXTURE0 + i)\<close> selects unit \<open>i\<close>.\<close>

definition glActiveTexture :: "int \<Rightarrow> gl_state \<Rightarrow> gl_state" where
  "glActiveTexture i gl = gl\<lparr>gl_active := i\<rparr>"

text \<open>\<open>glBindTexture(GL_TEXTURE_2D, n)\<close> binds \<open>n\<close> on the active unit.\<close>

definition glBindTexture :: "GLuint \<Rightarrow> gl_state \<Rightarrow> gl_state" where
  "glBindTexture n gl = gl\<lparr>gl_binding := (gl_binding gl)(gl_active gl := n)\<rparr>"

definition bound_texture :: "gl_state \<Rightarrow> GLuint" where
  "bound_texture gl = gl_binding gl (gl_active gl)"

definition glTexParameteri :: "gl_pname \<Rightarrow> gl_pvalue \<Rightarrow> gl_state \<Rightarrow> gl_state" where
  "glTexParameteri p v gl =
     (let n = bound_texture gl; t = gl_objects gl n in
      gl\<lparr>gl_objects := (gl_objects gl)(n := t\<lparr>tex_params := (tex_params t)(p \<mapsto> v)\<rparr>)\<rparr>)"

definition glTexImage2D ::
  "gl_internalformat \<Rightarrow> int \<Rightarrow> int \<Rightarrow> gl_format \<Rightarrow> 8 word list \<Rightarrow> gl_state \<Rightarrow> gl_state"
where
  "glTexImage2D internal w h fmt pixels gl =
     (let n = bound_texture gl; t = gl_objects gl n in
      gl\<lparr>gl_objects := (gl_objects gl)(n := t\<lparr>tex_image :=
        Some \<lparr>img_internalformat = internal, img_width = w, img_height = h,
              img_format = fmt, img_pixels = pixels\<rparr>\<rparr>)\<rparr>)"

definition glGenerateMipmap :: "gl_state \<Rightarrow> gl_state" where
  "glGenerateMipmap gl =
     (let n = bound_texture gl; t = gl_objects gl n in
      gl\<lparr>gl_objects := (gl_objects gl)(n := t\<lparr>tex_mipmaps := True\<rparr>)\<rparr>)"

section \<open>Texture registry\<close>

text \<open>
  What \<open>stbi_load\<close> hands back: \<open>None\<close> for the null pointer, otherwise the decoded
  pixels with the width, height and channel count it stored through its out-parameters.
\<close>

record stb_image =
  width :: int
  height :: int
  colorChannels :: int
  image_data :: "8 word list"

text \<open>
  The last part of \<open>CreateGLTexture\<close>, from \<open>glGenerateMipmap\<close> on, reached by the
  three- and four-channel branches.
\<close>

definition register_texture ::
  "GLuint \<Rightarrow> string \<Rightarrow> gl_state \<Rightarrow> SceneManager \<Rightarrow> fault + (bool \<times> gl_state \<times> SceneManager)"
where
  "register_texture textureID t gl sm =
     (let gl1 = glGenerateMipmap gl;
          gl2 = glBindTexture 0 gl1
      in case array_at (m_textureIDs sm) (m_loadedTextures sm) of
           Inl e \<Rightarrow> Inl e
         | Inr entry \<Rightarrow>
             (case array_put (m_textureIDs sm) (m_loadedTextures sm)
                     (entry\<lparr>ID := textureID, TEXTURE_INFO.tag := t\<rparr>) of
                Inl e \<Rightarrow> Inl e
              | Inr ids \<Rightarrow>
                  Inr (True, gl2,
                       sm\<lparr>m_textureIDs := ids, m_loadedTextures := m_loadedTextures sm + 1\<rparr>)))"

definition CreateGLTexture ::
  "stb_image option \<Rightarrow> string \<Rightarrow> gl_state \<Rightarrow> SceneManager
     \<Rightarrow> fault + (bool \<times> gl_state \<times> SceneManager)"
where
  "CreateGLTexture loaded t gl sm =
     (case loaded of
        Some img \<Rightarrow>
          (let (textureID, gl1) = glGenTextures gl;
               gl2 = glBindTexture textureID gl1;
               gl3 = glTexParameteri GL_TEXTURE_WRAP_S GL_REPEAT gl2;
               gl4 = glTexParameteri GL_TEXTURE_WRAP_T GL_REPEAT gl3;
               gl5 = glTexParameteri GL_TEXTURE_MIN_FILTER GL_LINEAR gl4;
               gl6 = glTexParameteri GL_TEXTURE_MAG_FILTER GL_LINEAR gl5
           in if colorChannels img = 3 then
                register_texture textureID t
                  (glTexImage2D GL_RGB8 (width img) (height img) GL_RGB (image_data img) gl6)
                  sm
              else if colorChannels img = 4 then
                register_texture textureID t
                  (glTexImage2D GL_RGBA8 (width img) (height img) GL_RGBA (image_data img)
                     gl6)
                  sm
              else Inr (False, gl6, sm))
      | None \<Rightarrow> Inr (False, gl, sm))"

function BindGLTextures_loop :: "SceneManager \<Rightarrow> int \<Rightarrow> gl_state \<Rightarrow> fault + gl_state" where
  "BindGLTextures_loop sm i gl =
     (if i < m_loadedTextures sm then
        (case array_at (m_textureIDs sm) i of
           Inl e \<Rightarrow> Inl e
         | Inr entry \<Rightarrow>
             BindGLTextures_loop sm (i + 1) (glBindTexture (ID entry) (glActiveTexture i gl)))
      else Inr gl)"
  by pat_completeness auto
termination
  by (relation "measure (\<lambda>(sm, i, gl). nat (m_loadedTextures sm - i))") auto

definition BindGLTextures :: "gl_state \<Rightarrow> SceneManager \<Rightarrow> fault + gl_state" where
  "BindGLTextures gl sm = BindGLTextures_loop sm 0 gl"

function DestroyGLTextures_loop ::
  "int \<Rightarrow> gl_state \<Rightarrow> SceneManager \<Rightarrow> fault + (gl_state \<times> SceneManager)"
where
  "DestroyGLTextures_loop i gl sm =
     (if i < m_loadedTextures sm then
        (case array_at (m_textureIDs sm) i of
           Inl e \<Rightarrow> Inl e
         | Inr entry \<Rightarrow>
             (let (n, gl1) = glGenTextures gl in
              case array_put (m_textureIDs sm) i (entry\<lparr>ID := n\<rparr>) of
                Inl e \<Rightarrow> Inl e
              | Inr ids \<Rightarrow> DestroyGLTextures_loop (i + 1) gl1 (sm\<lparr>m_textureIDs := ids\<rparr>)))
      else Inr (gl, sm))"
  by pat_completeness auto
termination
  by (relation "measure (\<lambda>(i, gl, sm). nat (m_loadedTextures sm - i))")
     (auto simp: array_put_def split: if_splits prod.splits)

definition DestroyGLTextures ::
  "gl_state \<Rightarrow> SceneManager \<Rightarrow> fault + (gl_state \<times> SceneManager)"
where
  "DestroyGLTextures gl sm = DestroyGLTextures_loop 0 gl sm"

text \<open>
  The scan of \<open>FindTextureID\<close>: locals \<open>index\<close>, \<open>bFound\<close> and \<open>textureID\<close>. The
  \<open>GLuint\<close> handle is stored into an \<open>int\<close>, which reads the same 32 bits as a signed
  number.
\<close>

function FindTextureID_loop ::
  "SceneManager \<Rightarrow> string \<Rightarrow> int \<Rightarrow> bool \<Rightarrow> int \<Rightarrow> fault + int"
where
  "FindTextureID_loop sm t index bFound textureID =
     (if index < m_loadedTextures sm \<and> bFound = False then
        (case array_at (m_textureIDs sm) index of
           Inl e \<Rightarrow> Inl e
         | Inr entry \<Rightarrow>
             if TEXTURE_INFO.tag entry = t then
               FindTextureID_loop sm t index True (sint (ID entry))
             else FindTextureID_loop sm t (index + 1) bFound textureID)
      else Inr textureID)"
  by pat_completeness auto
termination
  by (relation "measure (\<lambda>(sm, t, index, bFound, textureID).
        2 * nat (m_loadedTextures sm - index) + (if bFound then 0 else 1))") auto

definition FindTextureID :: "SceneManager \<Rightarrow> string \<Rightarrow> fault + int" where
  "FindTextureID sm t = FindTextureID_loop sm t 0 False (- 1)"

function FindTextureSlot_loop ::
  "SceneManager \<Rightarrow> string \<Rightarrow> int \<Rightarrow> bool \<Rightarrow> int \<Rightarrow> fault + int"
where
  "FindTextureSlot_loop sm t index bFound textureSlot =
     (if index < m_loadedTextures sm \<and> bFound = False then
        (case array_at (m_textureIDs sm) index of
           Inl e \<Rightarrow> Inl e
         | Inr entry \<Rightarrow>
             if TEXTURE_INFO.tag entry = t then FindTextureSlot_loop sm t index True index
             else FindTextureSlot_loop sm t (index + 1) bFound textureSlot)
      else Inr textureSlot)"
  by pat_completeness auto
termination
  by (relation "measure (\<lambda>(sm, t, index, bFound, textureSlot).
        2 * nat (m_loadedTextures sm - index) + (if bFound then 0 else 1))") auto

definition FindTextureSlot :: "SceneManager \<Rightarrow> string \<Rightarrow> fault + int" where
  "FindTextureSlot sm t = FindTextureSlot_loop sm t 0 False (- 1)"

section \<open>Material registry\<close>

text \<open>\<open>std::vector::push_back\<close>, by which \<open>DefineObjectMaterials\<close> registers a material.\<close>

definition push_back :: "'a list \<Rightarrow> 'a \<Rightarrow> 'a list" where
  "push_back v a = v @ [a]"

text \<open>
  The \<open>while\<close> loop of \<open>FindMaterial\<close>, with its locals \<open>index\<close> and \<open>bFound\<close> and the
  out-parameter \<open>material\<close>. A match sets \<open>bFound\<close> and copies three fields; a mismatch
  advances \<open>index\<close>.
\<close>

function FindMaterial_loop ::
  "SceneManager \<Rightarrow> string \<Rightarrow> nat \<Rightarrow> bool \<Rightarrow> OBJECT_MATERIAL \<Rightarrow> OBJECT_MATERIAL"
where
  "FindMaterial_loop sm t index bFound material =
     (if index < length (m_objectMaterials sm) \<and> bFound = False then
        (if OBJECT_MATERIAL.tag (m_objectMaterials sm ! index) = t then
           FindMaterial_loop sm t index True
             (material\<lparr>diffuseColor := diffuseColor (m_objectMaterials sm ! index),
                        specularColor := specularColor (m_objectMaterials sm ! index),
                        shininess := shininess (m_objectMaterials sm ! index)\<rparr>)
         else FindMaterial_loop sm t (index + 1) bFound material)
      else material)"
  by pat_completeness auto
termination
  by (relation "measure (\<lambda>(sm, t, index, bFound, material).
        2 * (length (m_objectMaterials sm) - index) + (if bFound then 0 else 1))") auto

text \<open>
  \<open>FindMaterial\<close> returns its \<open>bool\<close> together with the final contents of the
  out-parameter.
\<close>

definition FindMaterial ::
  "SceneManager \<Rightarrow> string \<Rightarrow> OBJECT_MATERIAL \<Rightarrow> bool \<times> OBJECT_MATERIAL"
where
  "FindMaterial sm t material =
     (if length (m_objectMaterials sm) = 0 then (False, material)
      else (True, FindMaterial_loop sm t 0 False material))"

section \<open>Transform composer\<close>

definition g_ModelName :: string where
  "g_ModelName = ''model''"

text \<open>The matrix \<open>modelView\<close> that \<open>SetTransformations\<close> computes.\<close>

definition modelView :: "vec3 \<Rightarrow> real \<Rightarrow> real \<Rightarrow> real \<Rightarrow> vec3 \<Rightarrow> mat4" where
  "modelView scaleXYZ XrotationDegrees YrotationDegrees ZrotationDegrees positionXYZ =
     (let scale = glm_scale scaleXYZ;
          rotationX = glm_rotate (glm_radians XrotationDegrees) (vec3 1 0 0);
          rotationY = glm_rotate (glm_radians YrotationDegrees) (vec3 0 1 0);
          rotationZ = glm_rotate (glm_radians ZrotationDegrees) (vec3 0 0 1);
          translation = glm_translate positionXYZ
      in translation * rotationZ * rotationY * rotationX * scale)"

definition SetTransformations ::
  "vec3 \<Rightarrow> real \<Rightarrow> real \<Rightarrow> real \<Rightarrow> vec3 \<Rightarrow> SceneManager \<Rightarrow> SceneManager"
where
  "SetTransformations scaleXYZ XrotationDegrees YrotationDegrees ZrotationDegrees positionXYZ sm =
     (case m_pShaderManager sm of
        None \<Rightarrow> sm
      | Some sh \<Rightarrow>
          sm\<lparr>m_pShaderManager := Some (setMat4Value g_ModelName
                (modelView scaleXYZ XrotationDegrees YrotationDegrees ZrotationDegrees positionXYZ)
                sh)\<rparr>)"

section \<open>Concrete states\<close>

text \<open>
  The first two materials that \<open>DefineObjectMaterials\<close> registers.
\<close>

definition metalMaterial :: OBJECT_MATERIAL where
  "metalMaterial =
     \<lparr>ambientColor = vec3 0.25 0.25 0.25, ambientStrength = 0.5,
      diffuseColor = vec3 0.4 0.4 0.4, specularColor = vec3 1.0 1.0 1.0,
      shininess = 128.0, tag = ''metal''\<rparr>"

definition floorMaterial :: OBJECT_MATERIAL where
  "floorMaterial =
     \<lparr>ambientColor = vec3 0.3 0.2 0.1, ambientStrength = 0.5,
      diffuseColor = vec3 0.6 0.4 0.2, specularColor = vec3 0.5 0.5 0.5,
      shininess = 32.0, tag = ''floor''\<rparr>"

text \<open>
  A scene manager with sixteen texture slots (the count the comments of
  \<open>BindGLTextures\<close> and \<open>LoadSceneTextures\<close> give), nothing registered, and a shader
  manager with no uniform set.
\<close>

definition empty_scene :: SceneManager where
  "empty_scene =
     \<lparr>m_pShaderManager = Some Map.empty,
      m_textureIDs = replicate 16 \<lparr>ID = 0, tag = []\<rparr>,
      m_loadedTextures = 0,
      m_objectMaterials = []\<rparr>"

text \<open>
  The registry after \<open>wall\<close> and then \<open>floor\<close> were loaded and received the handles
  1 and 2.
\<close>

definition wall_floor_scene :: SceneManager where
  "wall_floor_scene =
     empty_scene\<lparr>m_textureIDs :=
                   [\<lparr>ID = 1, tag = ''wall''\<rparr>, \<lparr>ID = 2, tag = ''floor''\<rparr>]
                     @ replicate 14 \<lparr>ID = 0, tag = []\<rparr>,
                 m_loadedTextures := 2\<rparr>"

text \<open>
  An OpenGL context in which \<open>names\<close> are the texture names handed out so far, none was
  released, and the driver numbers its names consecutively.
\<close>

definition gl_context :: "GLuint list \<Rightarrow> gl_state" where
  "gl_context names =
     \<lparr>gl_pick = (\<lambda>ns. word_of_nat (length ns) + 1),
      gl_names = names,
      gl_deleted = [],
      gl_active = 0,
      gl_binding = (\<lambda>u. 0),
      gl_objects = (\<lambda>n. \<lparr>tex_params = Map.empty, tex_image = None, tex_mipmaps = False\<rparr>)\<rparr>"

section \<open>Material registry: results\<close>

declare FindMaterial_loop.simps [simp del]

lemma FindMaterial_loop_found: "FindMaterial_loop sm t i True material = material"
  by (subst FindMaterial_loop.simps) simp

text \<open>The scan from \<open>index\<close> on stops at the first entry with the tag, if there is one.\<close>

lemma FindMaterial_loop_scan:
  "FindMaterial_loop sm t i False material =
     (case find (\<lambda>e. OBJECT_MATERIAL.tag e = t) (drop i (m_objectMaterials sm)) of
        None \<Rightarrow> material
      | Some e \<Rightarrow> material\<lparr>diffuseColor := diffuseColor e, specularColor := specularColor e,
                           shininess := shininess e\<rparr>)"
proof (induction "length (m_objectMaterials sm) - i" arbitrary: i)
  case 0
  then show ?case by (subst FindMaterial_loop.simps) simp
next
  case (Suc n)
  then have lt: "i < length (m_objectMaterials sm)" by simp
  then have d: "drop i (m_objectMaterials sm) =
      m_objectMaterials sm ! i # drop (Suc i) (m_objectMaterials sm)"
    by (simp add: Cons_nth_drop_Suc)
  show ?case
  proof (cases "OBJECT_MATERIAL.tag (m_objectMaterials sm ! i) = t")
    case True
    then show ?thesis using lt d
      by (subst FindMaterial_loop.simps) (simp add: FindMaterial_loop_found)
  next
    case False
    from Suc have "n = length (m_objectMaterials sm) - Suc i" by simp
    from Suc.hyps(1)[OF this] False lt d show ?thesis
      by (subst FindMaterial_loop.simps) simp
  qed
qed

lemma find_first_occurrence:
  "\<forall>e'\<in>set pre. \<not> P e' \<Longrightarrow> P e \<Longrightarrow> find P (pre @ e # post) = Some e"
  by (induction pre) auto

lemma foldl_push_back: "foldl push_back v ms = v @ ms"
  by (induction ms arbitrary: v) (auto simp: push_back_def)

text \<open>
  C1. \<open>FindMaterial\<close> returns false exactly when the registry is empty: on an empty
  registry it reports not-found, on a non-empty one it returns true whatever the tag is,
  also when no entry has it.
\<close>

theorem FindMaterial_found_flag:
  "fst (FindMaterial sm t material) = (m_objectMaterials sm \<noteq> [])"
  by (simp add: FindMaterial_def)

text \<open>
  C3. On an empty registry \<open>FindMaterial\<close> reports not-found. After any sequence of
  registrations in which \<open>e\<close> is the first entry with tag \<open>t\<close> (entries before it have
  other tags, entries after it are arbitrary, duplicates included), \<open>FindMaterial\<close> writes
  the diffuse colour, specular colour and shininess of \<open>e\<close> to the out-parameter.
\<close>

theorem FindMaterial_first_match:
  "fst (FindMaterial (sm\<lparr>m_objectMaterials := []\<rparr>) t material) = False \<and>
   (\<forall>pre e post.
      (\<forall>e'\<in>set pre. OBJECT_MATERIAL.tag e' \<noteq> t) \<and> OBJECT_MATERIAL.tag e = t \<longrightarrow>
      FindMaterial (sm\<lparr>m_objectMaterials := foldl push_back [] (pre @ e # post)\<rparr>) t material =
        (True, material\<lparr>diffuseColor := diffuseColor e, specularColor := specularColor e,
                        shininess := shininess e\<rparr>))"
proof -
  have reg: "foldl push_back [] xs = xs" for xs :: "OBJECT_MATERIAL list"
    using foldl_push_back [of "[]" xs] by simp
  show ?thesis
    unfolding reg by (simp add: FindMaterial_def FindMaterial_loop_scan find_first_occurrence)
qed

theorem FindMaterial_first_match_witness:
  "OBJECT_MATERIAL.tag metalMaterial \<noteq> ''floor'' \<and>
   OBJECT_MATERIAL.tag floorMaterial = ''floor'' \<and>
   FindMaterial
     (empty_scene\<lparr>m_objectMaterials := foldl push_back []
        ([metalMaterial] @ floorMaterial # [floorMaterial\<lparr>shininess := 1\<rparr>])\<rparr>)
     ''floor'' metalMaterial =
     (True, metalMaterial\<lparr>diffuseColor := vec3 0.6 0.4 0.2, specularColor := vec3 0.5 0.5 0.5,
                          shininess := 32\<rparr>)"
proof -
  have h: "(\<forall>e'\<in>set [metalMaterial]. OBJECT_MATERIAL.tag e' \<noteq> ''floor'') \<and>
      OBJECT_MATERIAL.tag floorMaterial = ''floor''"
    by (simp add: metalMaterial_def floorMaterial_def)
  have v: "diffuseColor floorMaterial = vec3 0.6 0.4 0.2"
    "specularColor floorMaterial = vec3 0.5 0.5 0.5" "shininess floorMaterial = 32"
    by (simp_all add: floorMaterial_def)
  from FindMaterial_first_match [of empty_scene "''floor''" metalMaterial] h
  have "FindMaterial
     (empty_scene\<lparr>m_objectMaterials := foldl push_back []
        ([metalMaterial] @ floorMaterial # [floorMaterial\<lparr>shininess := 1\<rparr>])\<rparr>)
     ''floor'' metalMaterial =
     (True, metalMaterial\<lparr>diffuseColor := diffuseColor floorMaterial,
                          specularColor := specularColor floorMaterial,
                          shininess := shininess floorMaterial\<rparr>)"
    by blast
  then show ?thesis using h unfolding v by simp
qed

text \<open>
  C10. \<open>FindMaterial\<close> never writes the ambient colour or the ambient strength of its
  out-parameter (nor its tag), and when no registered entry has the tag the out-parameter
  is left as it was, whether the registry is empty or not.
\<close>

theorem FindMaterial_frame:
  "ambientColor (snd (FindMaterial sm t material)) = ambientColor material \<and>
   ambientStrength (snd (FindMaterial sm t material)) = ambientStrength material \<and>
   OBJECT_MATERIAL.tag (snd (FindMaterial sm t material)) = OBJECT_MATERIAL.tag material \<and>
   ((\<forall>e\<in>set (m_objectMaterials sm). OBJECT_MATERIAL.tag e \<noteq> t) \<longrightarrow>
      snd (FindMaterial sm t material) = material)"
proof -
  have "find (\<lambda>e. OBJECT_MATERIAL.tag e = t) (m_objectMaterials sm) = None"
    if "\<forall>e\<in>set (m_objectMaterials sm). OBJECT_MATERIAL.tag e \<noteq> t"
    using that by (simp add: find_None_iff)
  then show ?thesis
    by (auto simp: FindMaterial_def FindMaterial_loop_scan split: option.splits)
qed

theorem FindMaterial_frame_witness:
  "OBJECT_MATERIAL.tag metalMaterial \<noteq> ''glass'' \<and>
   OBJECT_MATERIAL.tag floorMaterial \<noteq> ''glass'' \<and>
   FindMaterial (empty_scene\<lparr>m_objectMaterials := [metalMaterial, floorMaterial]\<rparr>)
     ''glass'' floorMaterial = (True, floorMaterial) \<and>
   ambientColor (snd (FindMaterial (empty_scene\<lparr>m_objectMaterials := [metalMaterial, floorMaterial]\<rparr>)
     ''metal'' floorMaterial)) = vec3 0.3 0.2 0.1"
proof -
  have h: "\<forall>e\<in>set (m_objectMaterials (empty_scene\<lparr>m_objectMaterials := [metalMaterial, floorMaterial]\<rparr>)).
      OBJECT_MATERIAL.tag e \<noteq> ''glass''"
    by (simp add: metalMaterial_def floorMaterial_def)
  have f: "fst (FindMaterial (empty_scene\<lparr>m_objectMaterials := [metalMaterial, floorMaterial]\<rparr>)
     ''glass'' floorMaterial) = True"
    by (simp add: FindMaterial_def)
  have a: "ambientColor floorMaterial = vec3 0.3 0.2 0.1"
    by (simp add: floorMaterial_def)
  from FindMaterial_frame
         [of "empty_scene\<lparr>m_objectMaterials := [metalMaterial, floorMaterial]\<rparr>" "''glass''"
            floorMaterial] h
  have s: "snd (FindMaterial (empty_scene\<lparr>m_objectMaterials := [metalMaterial, floorMaterial]\<rparr>)
     ''glass'' floorMaterial) = floorMaterial"
    by blast
  from FindMaterial_frame
         [of "empty_scene\<lparr>m_objectMaterials := [metalMaterial, floorMaterial]\<rparr>" "''metal''"
            floorMaterial] a
  have "ambientColor (snd (FindMaterial (empty_scene\<lparr>m_objectMaterials := [metalMaterial, floorMaterial]\<rparr>)
     ''metal'' floorMaterial)) = vec3 0.3 0.2 0.1"
    by simp
  with h f s show ?thesis by (simp add: prod_eq_iff)
qed

section \<open>Texture registry: lookup\<close>

declare FindTextureID_loop.simps [simp del]
declare FindTextureSlot_loop.simps [simp del]
declare BindGLTextures_loop.simps [simp del]
declare DestroyGLTextures_loop.simps [simp del]

lemma array_at_in: "0 \<le> i \<Longrightarrow> i < int (length xs) \<Longrightarrow> array_at xs i = Inr (xs ! nat i)"
  by (simp add: array_at_def)

lemma array_put_in: "0 \<le> i \<Longrightarrow> i < int (length xs) \<Longrightarrow> array_put xs i v = Inr (xs[nat i := v])"
  by (simp add: array_put_def)

lemma array_at_out: "i < 0 \<or> int (length xs) \<le> i \<Longrightarrow> array_at xs i = Inl OutOfBounds"
  by (auto simp: array_at_def)

lemma FindTextureID_loop_found: "FindTextureID_loop sm t i True r = Inr r"
  by (subst FindTextureID_loop.simps) simp

lemma FindTextureSlot_loop_found: "FindTextureSlot_loop sm t i True r = Inr r"
  by (subst FindTextureSlot_loop.simps) simp

lemma FindTextureID_loop_miss:
  assumes "m_loadedTextures sm \<le> int (length (m_textureIDs sm))"
    and "\<forall>j. i \<le> j \<and> int j < m_loadedTextures sm \<longrightarrow> TEXTURE_INFO.tag (m_textureIDs sm ! j) \<noteq> t"
  shows "FindTextureID_loop sm t (int i) False r = Inr r"
  using assms
proof (induction "nat (m_loadedTextures sm - int i)" arbitrary: i)
  case 0
  then show ?case by (subst FindTextureID_loop.simps) simp
next
  case (Suc n)
  then have lt: "int i < m_loadedTextures sm" by linarith
  with Suc.prems have a: "array_at (m_textureIDs sm) (int i) = Inr (m_textureIDs sm ! i)"
    by (simp add: array_at_def)
  from Suc.prems lt have ne: "TEXTURE_INFO.tag (m_textureIDs sm ! i) \<noteq> t" by simp
  from Suc.hyps(2) have n: "n = nat (m_loadedTextures sm - int (Suc i))" by simp
  have "FindTextureID_loop sm t (int (Suc i)) False r = Inr r"
    using Suc.hyps(1)[OF n] Suc.prems by simp
  then show ?case using lt a ne
    by (subst FindTextureID_loop.simps) (simp add: add.commute)
qed

lemma FindTextureSlot_loop_miss:
  assumes "m_loadedTextures sm \<le> int (length (m_textureIDs sm))"
    and "\<forall>j. i \<le> j \<and> int j < m_loadedTextures sm \<longrightarrow> TEXTURE_INFO.tag (m_textureIDs sm ! j) \<noteq> t"
  shows "FindTextureSlot_loop sm t (int i) False r = Inr r"
  using assms
proof (induction "nat (m_loadedTextures sm - int i)" arbitrary: i)
  case 0
  then show ?case by (subst FindTextureSlot_loop.simps) simp
next
  case (Suc n)
  then have lt: "int i < m_loadedTextures sm" by linarith
  with Suc.prems have a: "array_at (m_textureIDs sm) (int i) = Inr (m_textureIDs sm ! i)"
    by (simp add: array_at_def)
  from Suc.prems lt have ne: "TEXTURE_INFO.tag (m_textureIDs sm ! i) \<noteq> t" by simp
  from Suc.hyps(2) have n: "n = nat (m_loadedTextures sm - int (Suc i))" by simp
  have "FindTextureSlot_loop sm t (int (Suc i)) False r = Inr r"
    using Suc.hyps(1)[OF n] Suc.prems by simp
  then show ?case using lt a ne
    by (subst FindTextureSlot_loop.simps) (simp add: add.commute)
qed

lemma FindTextureID_loop_hit:
  assumes "m_loadedTextures sm \<le> int (length (m_textureIDs sm))"
    and "i \<le> k" and "int k < m_loadedTextures sm"
    and "TEXTURE_INFO.tag (m_textureIDs sm ! k) = t"
    and "\<forall>j. i \<le> j \<and> j < k \<longrightarrow> TEXTURE_INFO.tag (m_textureIDs sm ! j) \<noteq> t"
  shows "FindTextureID_loop sm t (int i) False r = Inr (sint (ID (m_textureIDs sm ! k)))"
  using assms
proof (induction "k - i" arbitrary: i)
  case 0
  then have "i = k" by simp
  with 0 show ?case
    by (subst FindTextureID_loop.simps) (simp add: array_at_def FindTextureID_loop_found)
next
  case (Suc n)
  then have lt: "i < k" by simp
  with Suc.prems have a: "array_at (m_textureIDs sm) (int i) = Inr (m_textureIDs sm ! i)"
    by (simp add: array_at_def)
  from Suc.prems lt have ne: "TEXTURE_INFO.tag (m_textureIDs sm ! i) \<noteq> t" by simp
  from Suc.hyps(2) have n: "n = k - Suc i" by simp
  have "FindTextureID_loop sm t (int (Suc i)) False r = Inr (sint (ID (m_textureIDs sm ! k)))"
    using Suc.hyps(1)[OF n] Suc.prems lt by simp
  then show ?case using lt a ne Suc.prems(3)
    by (subst FindTextureID_loop.simps) (simp add: add.commute)
qed

lemma FindTextureSlot_loop_hit:
  assumes "m_loadedTextures sm \<le> int (length (m_textureIDs sm))"
    and "i \<le> k" and "int k < m_loadedTextures sm"
    and "TEXTURE_INFO.tag (m_textureIDs sm ! k) = t"
    and "\<forall>j. i \<le> j \<and> j < k \<longrightarrow> TEXTURE_INFO.tag (m_textureIDs sm ! j) \<noteq> t"
  shows "FindTextureSlot_loop sm t (int i) False r = Inr (int k)"
  using assms
proof (induction "k - i" arbitrary: i)
  case 0
  then have "i = k" by simp
  with 0 show ?case
    by (subst FindTextureSlot_loop.simps) (simp add: array_at_def FindTextureSlot_loop_found)
next
  case (Suc n)
  then have lt: "i < k" by simp
  with Suc.prems have a: "array_at (m_textureIDs sm) (int i) = Inr (m_textureIDs sm ! i)"
    by (simp add: array_at_def)
  from Suc.prems lt have ne: "TEXTURE_INFO.tag (m_textureIDs sm ! i) \<noteq> t" by simp
  from Suc.hyps(2) have n: "n = k - Suc i" by simp
  have "FindTextureSlot_loop sm t (int (Suc i)) False r = Inr (int k)"
    using Suc.hyps(1)[OF n] Suc.prems lt by simp
  then show ?case using lt a ne Suc.prems(3)
    by (subst FindTextureSlot_loop.simps) (simp add: add.commute)
qed

text \<open>
  C4. In a registry whose counter does not exceed the slot count, \<open>FindTextureID\<close> and
  \<open>FindTextureSlot\<close> return the handle (read as an \<open>int\<close>) and the index of the first
  registered entry whose tag matches, in registration order; when no registered entry has
  the tag both return -1. Neither faults.
\<close>

theorem FindTexture_first_match_or_sentinel:
  assumes "m_loadedTextures sm \<le> int (length (m_textureIDs sm))"
  shows "(\<forall>k. int k < m_loadedTextures sm \<and> TEXTURE_INFO.tag (m_textureIDs sm ! k) = t \<and>
            (\<forall>j<k. TEXTURE_INFO.tag (m_textureIDs sm ! j) \<noteq> t) \<longrightarrow>
            FindTextureID sm t = Inr (sint (ID (m_textureIDs sm ! k))) \<and>
            FindTextureSlot sm t = Inr (int k)) \<and>
         ((\<forall>j. int j < m_loadedTextures sm \<longrightarrow> TEXTURE_INFO.tag (m_textureIDs sm ! j) \<noteq> t) \<longrightarrow>
            FindTextureID sm t = Inr (- 1) \<and> FindTextureSlot sm t = Inr (- 1))"
proof (intro conjI allI impI)
  fix k
  assume h: "int k < m_loadedTextures sm \<and> TEXTURE_INFO.tag (m_textureIDs sm ! k) = t \<and>
            (\<forall>j<k. TEXTURE_INFO.tag (m_textureIDs sm ! j) \<noteq> t)"
  show "FindTextureID sm t = Inr (sint (ID (m_textureIDs sm ! k)))"
    unfolding FindTextureID_def
    using FindTextureID_loop_hit [of sm 0 k t "- 1"] assms h by simp
  show "FindTextureSlot sm t = Inr (int k)"
    unfolding FindTextureSlot_def
    using FindTextureSlot_loop_hit [of sm 0 k t "- 1"] assms h by simp
next
  assume h: "\<forall>j. int j < m_loadedTextures sm \<longrightarrow> TEXTURE_INFO.tag (m_textureIDs sm ! j) \<noteq> t"
  show "FindTextureID sm t = Inr (- 1)"
    unfolding FindTextureID_def
    using FindTextureID_loop_miss [of sm 0 t "- 1"] assms h by simp
  show "FindTextureSlot sm t = Inr (- 1)"
    unfolding FindTextureSlot_def
    using FindTextureSlot_loop_miss [of sm 0 t "- 1"] assms h by simp
qed

theorem FindTexture_first_match_or_sentinel_witness:
  "m_loadedTextures wall_floor_scene \<le> int (length (m_textureIDs wall_floor_scene)) \<and>
   FindTextureID wall_floor_scene ''floor'' = Inr 2 \<and>
   FindTextureSlot wall_floor_scene ''floor'' = Inr 1 \<and>
   FindTextureID wall_floor_scene ''sky'' = Inr (- 1) \<and>
   FindTextureSlot wall_floor_scene ''sky'' = Inr (- 1)"
proof -
  have ok: "m_loadedTextures wall_floor_scene \<le> int (length (m_textureIDs wall_floor_scene))"
    by (simp add: wall_floor_scene_def empty_scene_def)
  have hit: "int 1 < m_loadedTextures wall_floor_scene \<and>
      TEXTURE_INFO.tag (m_textureIDs wall_floor_scene ! 1) = ''floor'' \<and>
      (\<forall>j<1. TEXTURE_INFO.tag (m_textureIDs wall_floor_scene ! j) \<noteq> ''floor'')"
    by (simp add: wall_floor_scene_def empty_scene_def)
  have miss: "\<forall>j. int j < m_loadedTextures wall_floor_scene \<longrightarrow>
      TEXTURE_INFO.tag (m_textureIDs wall_floor_scene ! j) \<noteq> ''sky''"
  proof (intro allI impI)
    fix j :: nat
    assume "int j < m_loadedTextures wall_floor_scene"
    then have "j = 0 \<or> j = 1" by (auto simp: wall_floor_scene_def empty_scene_def)
    then show "TEXTURE_INFO.tag (m_textureIDs wall_floor_scene ! j) \<noteq> ''sky''"
      by (auto simp: wall_floor_scene_def empty_scene_def)
  qed
  have id: "sint (ID (m_textureIDs wall_floor_scene ! 1)) = 2"
    by (simp add: wall_floor_scene_def empty_scene_def)
  from FindTexture_first_match_or_sentinel [OF ok, of "''floor''"] hit
  have a: "FindTextureID wall_floor_scene ''floor'' =
             Inr (sint (ID (m_textureIDs wall_floor_scene ! 1))) \<and>
           FindTextureSlot wall_floor_scene ''floor'' = Inr (int 1)"
    by blast
  from FindTexture_first_match_or_sentinel [OF ok, of "''sky''"] miss
  have b: "FindTextureID wall_floor_scene ''sky'' = Inr (- 1) \<and>
           FindTextureSlot wall_floor_scene ''sky'' = Inr (- 1)"
    by blast
  from ok a b id show ?thesis by simp
qed

section \<open>Texture registry: loading\<close>

lemma bound_texture_glBindTexture: "bound_texture (glBindTexture n gl) = n"
  by (simp add: bound_texture_def glBindTexture_def)

lemma bound_texture_glTexParameteri:
  "bound_texture (glTexParameteri p v gl) = bound_texture gl"
  by (simp add: bound_texture_def glTexParameteri_def Let_def)

lemma tex_image_glTexImage2D:
  "tex_image (gl_objects (glTexImage2D internal w h fmt px gl) (bound_texture gl)) =
     Some \<lparr>img_internalformat = internal, img_width = w, img_height = h,
           img_format = fmt, img_pixels = px\<rparr>"
  by (simp add: glTexImage2D_def Let_def)

lemma tex_image_glGenerateMipmap:
  "tex_image (gl_objects (glGenerateMipmap gl) n) = tex_image (gl_objects gl n)"
  by (simp add: glGenerateMipmap_def Let_def)

lemma gl_objects_glBindTexture: "gl_objects (glBindTexture n gl) = gl_objects gl"
  by (simp add: glBindTexture_def)

lemma TEXTURE_INFO_overwrite:
  "(e::TEXTURE_INFO)\<lparr>ID := n, TEXTURE_INFO.tag := t\<rparr> = \<lparr>ID = n, tag = t\<rparr>"
  by (cases e) simp

lemma register_texture_in:
  assumes "0 \<le> m_loadedTextures sm" and "m_loadedTextures sm < int (length (m_textureIDs sm))"
  shows "register_texture n t gl sm =
           Inr (True, glBindTexture 0 (glGenerateMipmap gl),
                sm\<lparr>m_textureIDs := (m_textureIDs sm)[nat (m_loadedTextures sm) :=
                       \<lparr>ID = n, tag = t\<rparr>],
                   m_loadedTextures := m_loadedTextures sm + 1\<rparr>)"
  using assms
  by (simp add: register_texture_def array_at_in array_put_in Let_def TEXTURE_INFO_overwrite)

lemma register_texture_out:
  assumes "m_loadedTextures sm < 0 \<or> int (length (m_textureIDs sm)) \<le> m_loadedTextures sm"
  shows "register_texture n t gl sm = Inl OutOfBounds"
  using assms by (simp add: register_texture_def array_at_out Let_def)

lemma CreateGLTexture_registers:
  assumes "0 \<le> m_loadedTextures sm" and "m_loadedTextures sm < int (length (m_textureIDs sm))"
    and "(c, internal, fmt) = (3, GL_RGB8, GL_RGB) \<or> (c, internal, fmt) = (4, GL_RGBA8, GL_RGBA)"
    and "colorChannels img = c"
  shows "\<exists>gl'. CreateGLTexture (Some img) t gl sm =
           Inr (True, gl',
                sm\<lparr>m_textureIDs := (m_textureIDs sm)[nat (m_loadedTextures sm) :=
                       \<lparr>ID = fst (glGenTextures gl), tag = t\<rparr>],
                   m_loadedTextures := m_loadedTextures sm + 1\<rparr>) \<and>
           tex_image (gl_objects gl' (fst (glGenTextures gl))) =
             Some \<lparr>img_internalformat = internal, img_width = width img,
                   img_height = height img, img_format = fmt, img_pixels = image_data img\<rparr>"
proof -
  define n where "n = fst (glGenTextures gl)"
  define gl6 where "gl6 =
    glTexParameteri GL_TEXTURE_MAG_FILTER GL_LINEAR
      (glTexParameteri GL_TEXTURE_MIN_FILTER GL_LINEAR
        (glTexParameteri GL_TEXTURE_WRAP_T GL_REPEAT
          (glTexParameteri GL_TEXTURE_WRAP_S GL_REPEAT
            (glBindTexture n (snd (glGenTextures gl))))))"
  have b: "bound_texture gl6 = n"
    by (simp add: gl6_def bound_texture_glTexParameteri bound_texture_glBindTexture)
  define gl7 where "gl7 = glTexImage2D internal (width img) (height img) fmt (image_data img) gl6"
  have c: "CreateGLTexture (Some img) t gl sm = register_texture n t gl7 sm"
    using assms(3,4)
    by (auto simp add: CreateGLTexture_def case_prod_beta Let_def n_def gl6_def gl7_def)
  have "tex_image (gl_objects (glBindTexture 0 (glGenerateMipmap gl7)) n) =
     Some \<lparr>img_internalformat = internal, img_width = width img,
                   img_height = height img, img_format = fmt, img_pixels = image_data img\<rparr>"
    using tex_image_glTexImage2D [of internal "width img" "height img" fmt "image_data img" gl6]
    by (simp add: gl_objects_glBindTexture tex_image_glGenerateMipmap gl7_def b)
  then show ?thesis
    unfolding c register_texture_in [OF assms(1,2)] n_def by blast
qed

lemma CreateGLTexture_rejects:
  assumes "colorChannels img \<noteq> 3" and "colorChannels img \<noteq> 4"
  shows "\<exists>gl'. CreateGLTexture (Some img) t gl sm = Inr (False, gl', sm)"
  using assms by (simp add: CreateGLTexture_def Let_def case_prod_beta)

lemma CreateGLTexture_decode_failure: "CreateGLTexture None t gl sm = Inr (False, gl, sm)"
  by (simp add: CreateGLTexture_def)

lemma CreateGLTexture_overflow:
  assumes "colorChannels img = 3 \<or> colorChannels img = 4"
    and "m_loadedTextures sm < 0 \<or> int (length (m_textureIDs sm)) \<le> m_loadedTextures sm"
  shows "CreateGLTexture (Some img) t gl sm = Inl OutOfBounds"
  using assms(1)
  by (auto simp add: CreateGLTexture_def Let_def case_prod_beta register_texture_out [OF assms(2)])

text \<open>
  C5. With room in the slot array, \<open>CreateGLTexture\<close> on a decoded image with 3
  channels uploads it as \<open>GL_RGB8\<close>/\<open>GL_RGB\<close> to the newly generated texture, registers
  that handle under the tag and returns true; with 4 channels it does the same with
  \<open>GL_RGBA8\<close>/\<open>GL_RGBA\<close>. With any other channel count, and when decoding failed, it
  returns false and the scene manager (slot array and counter included) is unchanged.
\<close>

theorem CreateGLTexture_channel_dispatch:
  assumes "0 \<le> m_loadedTextures sm" and "m_loadedTextures sm < int (length (m_textureIDs sm))"
  shows "(colorChannels img = 3 \<longrightarrow>
            (\<exists>gl'. CreateGLTexture (Some img) t gl sm =
               Inr (True, gl',
                    sm\<lparr>m_textureIDs := (m_textureIDs sm)[nat (m_loadedTextures sm) :=
                           \<lparr>ID = fst (glGenTextures gl), tag = t\<rparr>],
                       m_loadedTextures := m_loadedTextures sm + 1\<rparr>) \<and>
               tex_image (gl_objects gl' (fst (glGenTextures gl))) =
                 Some \<lparr>img_internalformat = GL_RGB8, img_width = width img,
                       img_height = height img, img_format = GL_RGB,
                       img_pixels = image_data img\<rparr>)) \<and>
         (colorChannels img = 4 \<longrightarrow>
            (\<exists>gl'. CreateGLTexture (Some img) t gl sm =
               Inr (True, gl',
                    sm\<lparr>m_textureIDs := (m_textureIDs sm)[nat (m_loadedTextures sm) :=
                           \<lparr>ID = fst (glGenTextures gl), tag = t\<rparr>],
                       m_loadedTextures := m_loadedTextures sm + 1\<rparr>) \<and>
               tex_image (gl_objects gl' (fst (glGenTextures gl))) =
                 Some \<lparr>img_internalformat = GL_RGBA8, img_width = width img,
                       img_height = height img, img_format = GL_RGBA,
                       img_pixels = image_data img\<rparr>)) \<and>
         (colorChannels img \<noteq> 3 \<and> colorChannels img \<noteq> 4 \<longrightarrow>
            (\<exists>gl'. CreateGLTexture (Some img) t gl sm = Inr (False, gl', sm))) \<and>
         CreateGLTexture None t gl sm = Inr (False, gl, sm)"
proof (intro conjI impI)
  assume "colorChannels img = 3"
  then show "\<exists>gl'. CreateGLTexture (Some img) t gl sm =
               Inr (True, gl',
                    sm\<lparr>m_textureIDs := (m_textureIDs sm)[nat (m_loadedTextures sm) :=
                           \<lparr>ID = fst (glGenTextures gl), tag = t\<rparr>],
                       m_loadedTextures := m_loadedTextures sm + 1\<rparr>) \<and>
               tex_image (gl_objects gl' (fst (glGenTextures gl))) =
                 Some \<lparr>img_internalformat = GL_RGB8, img_width = width img,
                       img_height = height img, img_format = GL_RGB,
                       img_pixels = image_data img\<rparr>"
    using CreateGLTexture_registers [OF assms, of 3 GL_RGB8 GL_RGB img t gl] by simp
next
  assume "colorChannels img = 4"
  then show "\<exists>gl'. CreateGLTexture (Some img) t gl sm =
               Inr (True, gl',
                    sm\<lparr>m_textureIDs := (m_textureIDs sm)[nat (m_loadedTextures sm) :=
                           \<lparr>ID = fst (glGenTextures gl), tag = t\<rparr>],
                       m_loadedTextures := m_loadedTextures sm + 1\<rparr>) \<and>
               tex_image (gl_objects gl' (fst (glGenTextures gl))) =
                 Some \<lparr>img_internalformat = GL_RGBA8, img_width = width img,
                       img_height = height img, img_format = GL_RGBA,
                       img_pixels = image_data img\<rparr>"
    using CreateGLTexture_registers [OF assms, of 4 GL_RGBA8 GL_RGBA img t gl] by simp
next
  assume "colorChannels img \<noteq> 3 \<and> colorChannels img \<noteq> 4"
  then show "\<exists>gl'. CreateGLTexture (Some img) t gl sm = Inr (False, gl', sm)"
    using CreateGLTexture_rejects [of img t gl sm] by simp
next
  show "CreateGLTexture None t gl sm = Inr (False, gl, sm)"
    by (rule CreateGLTexture_decode_failure)
qed

theorem CreateGLTexture_channel_dispatch_witness:
  "0 \<le> m_loadedTextures empty_scene \<and>
   m_loadedTextures empty_scene < int (length (m_textureIDs empty_scene)) \<and>
   (\<exists>gl'. CreateGLTexture
       (Some \<lparr>width = 2, height = 1, colorChannels = 3, image_data = [1, 2, 3, 4, 5, 6]\<rparr>)
       ''wall'' (gl_context []) empty_scene =
       Inr (True, gl',
            empty_scene\<lparr>m_textureIDs := (m_textureIDs empty_scene)[0 := \<lparr>ID = 1, tag = ''wall''\<rparr>],
                        m_loadedTextures := 1\<rparr>) \<and>
       tex_image (gl_objects gl' 1) =
         Some \<lparr>img_internalformat = GL_RGB8, img_width = 2, img_height = 1,
               img_format = GL_RGB, img_pixels = [1, 2, 3, 4, 5, 6]\<rparr>) \<and>
   (\<exists>gl'. CreateGLTexture
       (Some \<lparr>width = 2, height = 1, colorChannels = 2, image_data = [1, 2, 3, 4]\<rparr>)
       ''wall'' (gl_context []) empty_scene = Inr (False, gl', empty_scene))"
proof -
  have a: "0 \<le> m_loadedTextures empty_scene"
    and b: "m_loadedTextures empty_scene < int (length (m_textureIDs empty_scene))"
    by (simp_all add: empty_scene_def)
  have n: "m_loadedTextures empty_scene = 0" "fst (glGenTextures (gl_context [])) = 1"
    by (simp_all add: empty_scene_def glGenTextures_def gl_context_def)
  show ?thesis
    using a b
      CreateGLTexture_channel_dispatch [OF a b,
        of "\<lparr>width = 2, height = 1, colorChannels = 3, image_data = [1, 2, 3, 4, 5, 6]\<rparr>"
           "''wall''" "gl_context []"]
      CreateGLTexture_channel_dispatch [OF a b,
        of "\<lparr>width = 2, height = 1, colorChannels = 2, image_data = [1, 2, 3, 4]\<rparr>"
           "''wall''" "gl_context []"]
    by (simp add: n)
qed

text \<open>
  C9. \<open>CreateGLTexture\<close> has no capacity check. With sixteen slots and an image of 3 or
  4 channels, when the counter is within \<open>0..15\<close> the entry \<open>{handle, tag}\<close> is written
  at the counter's index and the counter is incremented; when the counter is outside
  that range (sixteen textures are already registered) the same write is performed
  outside the array.
\<close>

theorem CreateGLTexture_no_capacity_check:
  assumes "length (m_textureIDs sm) = 16"
    and "colorChannels img = 3 \<or> colorChannels img = 4"
  shows "(0 \<le> m_loadedTextures sm \<and> m_loadedTextures sm < 16 \<longrightarrow>
            (\<exists>gl'. CreateGLTexture (Some img) t gl sm =
               Inr (True, gl',
                    sm\<lparr>m_textureIDs := (m_textureIDs sm)[nat (m_loadedTextures sm) :=
                           \<lparr>ID = fst (glGenTextures gl), tag = t\<rparr>],
                       m_loadedTextures := m_loadedTextures sm + 1\<rparr>))) \<and>
         (m_loadedTextures sm < 0 \<or> 16 \<le> m_loadedTextures sm \<longrightarrow>
            CreateGLTexture (Some img) t gl sm = Inl OutOfBounds)"
proof (intro conjI impI)
  assume h: "0 \<le> m_loadedTextures sm \<and> m_loadedTextures sm < 16"
  then have a: "0 \<le> m_loadedTextures sm"
    and b: "m_loadedTextures sm < int (length (m_textureIDs sm))"
    using assms(1) by simp_all
  from assms(2) show "\<exists>gl'. CreateGLTexture (Some img) t gl sm =
               Inr (True, gl',
                    sm\<lparr>m_textureIDs := (m_textureIDs sm)[nat (m_loadedTextures sm) :=
                           \<lparr>ID = fst (glGenTextures gl), tag = t\<rparr>],
                       m_loadedTextures := m_loadedTextures sm + 1\<rparr>)"
  proof
    assume "colorChannels img = 3"
    then show ?thesis
      using CreateGLTexture_registers [OF a b, of 3 GL_RGB8 GL_RGB img t gl] by auto
  next
    assume "colorChannels img = 4"
    then show ?thesis
      using CreateGLTexture_registers [OF a b, of 4 GL_RGBA8 GL_RGBA img t gl] by auto
  qed
next
  assume "m_loadedTextures sm < 0 \<or> 16 \<le> m_loadedTextures sm"
  then have "m_loadedTextures sm < 0 \<or> int (length (m_textureIDs sm)) \<le> m_loadedTextures sm"
    using assms(1) by simp
  then show "CreateGLTexture (Some img) t gl sm = Inl OutOfBounds"
    by (rule CreateGLTexture_overflow [OF assms(2)])
qed

theorem CreateGLTexture_no_capacity_check_witness:
  "length (m_textureIDs empty_scene) = 16 \<and>
   CreateGLTexture
     (Some \<lparr>width = 1, height = 1, colorChannels = 4, image_data = [1, 2, 3, 4]\<rparr>)
     ''extra'' (gl_context []) (empty_scene\<lparr>m_loadedTextures := 16\<rparr>) = Inl OutOfBounds \<and>
   (\<exists>gl'. CreateGLTexture
       (Some \<lparr>width = 1, height = 1, colorChannels = 4, image_data = [1, 2, 3, 4]\<rparr>)
       ''last'' (gl_context []) (empty_scene\<lparr>m_loadedTextures := 15\<rparr>) =
       Inr (True, gl',
            empty_scene\<lparr>m_textureIDs := (m_textureIDs empty_scene)[15 := \<lparr>ID = 1, tag = ''last''\<rparr>],
                        m_loadedTextures := 16\<rparr>))"
proof -
  have l: "length (m_textureIDs empty_scene) = 16"
    by (simp add: empty_scene_def)
  have l16: "length (m_textureIDs (empty_scene\<lparr>m_loadedTextures := 16\<rparr>)) = 16"
    and l15: "length (m_textureIDs (empty_scene\<lparr>m_loadedTextures := 15\<rparr>)) = 16"
    using l by simp_all
  have c: "colorChannels \<lparr>width = 1, height = 1, colorChannels = 4, image_data = [1, 2, 3, 4]\<rparr> = 3 \<or>
           colorChannels \<lparr>width = 1, height = 1, colorChannels = 4, image_data = [1, 2, 3, 4]\<rparr> = 4"
    by simp
  have n: "fst (glGenTextures (gl_context [])) = 1"
    by (simp add: glGenTextures_def gl_context_def)
  show ?thesis
    using l
      CreateGLTexture_no_capacity_check [OF l16 c, of "''extra''" "gl_context []"]
      CreateGLTexture_no_capacity_check [OF l15 c, of "''last''" "gl_context []"]
    by (simp add: n)
qed

section \<open>Texture registry: binding and teardown\<close>

lemma BindGLTextures_loop_binds:
  assumes "m_loadedTextures sm \<le> int (length (m_textureIDs sm))" and "0 \<le> i"
  shows "\<exists>gl'. BindGLTextures_loop sm i gl = Inr gl' \<and>
           (\<forall>j. i \<le> j \<and> j < m_loadedTextures sm \<longrightarrow>
                gl_binding gl' j = ID (m_textureIDs sm ! nat j)) \<and>
           (\<forall>j. j < i \<longrightarrow> gl_binding gl' j = gl_binding gl j) \<and>
           gl_names gl' = gl_names gl \<and> gl_deleted gl' = gl_deleted gl \<and>
           gl_objects gl' = gl_objects gl"
  using assms
proof (induction "nat (m_loadedTextures sm - i)" arbitrary: i gl)
  case 0
  then have "\<not> i < m_loadedTextures sm" by linarith
  then show ?case by (subst BindGLTextures_loop.simps) auto
next
  case (Suc n)
  then have lt: "i < m_loadedTextures sm" by linarith
  define gl1 where "gl1 = glBindTexture (ID (m_textureIDs sm ! nat i)) (glActiveTexture i gl)"
  have step: "BindGLTextures_loop sm i gl = BindGLTextures_loop sm (i + 1) gl1"
    using lt Suc.prems
    by (subst BindGLTextures_loop.simps) (simp add: array_at_in gl1_def)
  have g1: "gl_binding gl1 = (gl_binding gl)(i := ID (m_textureIDs sm ! nat i))"
    "gl_names gl1 = gl_names gl" "gl_deleted gl1 = gl_deleted gl" "gl_objects gl1 = gl_objects gl"
    by (simp_all add: gl1_def glBindTexture_def glActiveTexture_def)
  from Suc.hyps(2) have n: "n = nat (m_loadedTextures sm - (i + 1))" by linarith
  from Suc.hyps(1)[OF n Suc.prems(1), of gl1] Suc.prems(2)
  obtain gl' where r: "BindGLTextures_loop sm (i + 1) gl1 = Inr gl'"
    and a: "\<forall>j. i + 1 \<le> j \<and> j < m_loadedTextures sm \<longrightarrow>
                gl_binding gl' j = ID (m_textureIDs sm ! nat j)"
    and b: "\<forall>j. j < i + 1 \<longrightarrow> gl_binding gl' j = gl_binding gl1 j"
    and c: "gl_names gl' = gl_names gl1" "gl_deleted gl' = gl_deleted gl1"
           "gl_objects gl' = gl_objects gl1"
    by auto
  have "\<forall>j. i \<le> j \<and> j < m_loadedTextures sm \<longrightarrow>
                gl_binding gl' j = ID (m_textureIDs sm ! nat j)"
  proof (intro allI impI)
    fix j assume j: "i \<le> j \<and> j < m_loadedTextures sm"
    show "gl_binding gl' j = ID (m_textureIDs sm ! nat j)"
    proof (cases "j = i")
      case True
      then show ?thesis using b g1(1) by simp
    next
      case False
      then show ?thesis using a j by simp
    qed
  qed
  moreover have "\<forall>j. j < i \<longrightarrow> gl_binding gl' j = gl_binding gl j"
    using b g1(1) by simp
  ultimately show ?case using step r c g1 by simp
qed

text \<open>
  C6. In a registry whose counter does not exceed the slot count, \<open>BindGLTextures\<close>
  binds, for every \<open>i\<close> below the registered count, texture unit \<open>i\<close> to the handle of the
  \<open>i\<close>-th registered entry: units are used from 0 upwards in registration order.
\<close>

theorem BindGLTextures_sequential_units:
  assumes "m_loadedTextures sm \<le> int (length (m_textureIDs sm))"
  shows "\<exists>gl'. BindGLTextures gl sm = Inr gl' \<and>
           (\<forall>i. 0 \<le> i \<and> i < m_loadedTextures sm \<longrightarrow>
                gl_binding gl' i = ID (m_textureIDs sm ! nat i))"
  using BindGLTextures_loop_binds [OF assms, of 0 gl]
  unfolding BindGLTextures_def by auto

theorem BindGLTextures_sequential_units_witness:
  "m_loadedTextures wall_floor_scene \<le> int (length (m_textureIDs wall_floor_scene)) \<and>
   (\<exists>gl'. BindGLTextures (gl_context [1, 2]) wall_floor_scene = Inr gl' \<and>
      gl_binding gl' 0 = 1 \<and> gl_binding gl' 1 = 2)"
proof -
  have ok: "m_loadedTextures wall_floor_scene \<le> int (length (m_textureIDs wall_floor_scene))"
    by (simp add: wall_floor_scene_def empty_scene_def)
  have v: "m_loadedTextures wall_floor_scene = 2"
    "ID (m_textureIDs wall_floor_scene ! 0) = 1" "ID (m_textureIDs wall_floor_scene ! Suc 0) = 2"
    by (simp_all add: wall_floor_scene_def empty_scene_def)
  from BindGLTextures_sequential_units [OF ok, of "gl_context [1, 2]"]
  obtain gl' where r: "BindGLTextures (gl_context [1, 2]) wall_floor_scene = Inr gl'"
    and b: "\<forall>i. 0 \<le> i \<and> i < m_loadedTextures wall_floor_scene \<longrightarrow>
                gl_binding gl' i = ID (m_textureIDs wall_floor_scene ! nat i)"
    by blast
  from b [rule_format, of 0] b [rule_format, of 1]
  have "gl_binding gl' 0 = 1" "gl_binding gl' 1 = 2"
    by (simp_all add: v)
  with ok r show ?thesis by blast
qed

lemma DestroyGLTextures_loop_regenerates:
  assumes "m_loadedTextures sm \<le> int (length (m_textureIDs sm))" and "0 \<le> i"
  shows "\<exists>names ids. DestroyGLTextures_loop i gl sm =
            Inr (gl\<lparr>gl_names := gl_names gl @ names\<rparr>, sm\<lparr>m_textureIDs := ids\<rparr>) \<and>
           length ids = length (m_textureIDs sm) \<and>
           map TEXTURE_INFO.tag ids = map TEXTURE_INFO.tag (m_textureIDs sm) \<and>
           take (nat i) ids = take (nat i) (m_textureIDs sm) \<and>
           drop (nat (m_loadedTextures sm)) ids = drop (nat (m_loadedTextures sm)) (m_textureIDs sm) \<and>
           names = map ID (drop (nat i) (take (nat (m_loadedTextures sm)) ids))"
  using assms
proof (induction "nat (m_loadedTextures sm - i)" arbitrary: i gl sm)
  case 0
  then have "DestroyGLTextures_loop i gl sm = Inr (gl, sm)"
    by (subst DestroyGLTextures_loop.simps) simp
  moreover have "drop (nat i) (take (nat (m_loadedTextures sm)) (m_textureIDs sm)) = []"
    using 0 by simp
  ultimately show ?case
    by (intro exI[of _ "[]"] exI[of _ "m_textureIDs sm"]) simp
next
  case (Suc n)
  then have lt: "i < m_loadedTextures sm" by linarith
  define L where "L = nat (m_loadedTextures sm)"
  define k where "k = nat i"
  have kL: "k < L" "L \<le> length (m_textureIDs sm)"
    using lt Suc.prems by (simp_all add: k_def L_def)
  define nm where "nm = gl_pick gl (gl_names gl)"
  define gl1 where "gl1 = gl\<lparr>gl_names := gl_names gl @ [nm]\<rparr>"
  define ids1 where "ids1 = (m_textureIDs sm)[k := (m_textureIDs sm ! k)\<lparr>ID := nm\<rparr>]"
  define sm1 where "sm1 = sm\<lparr>m_textureIDs := ids1\<rparr>"
  have step: "DestroyGLTextures_loop i gl sm = DestroyGLTextures_loop (i + 1) gl1 sm1"
    using lt Suc.prems
    by (subst DestroyGLTextures_loop.simps)
       (simp add: array_at_in array_put_in glGenTextures_def Let_def gl1_def sm1_def ids1_def
          nm_def k_def)
  have s1: "m_loadedTextures sm1 = m_loadedTextures sm" "m_textureIDs sm1 = ids1"
    "length ids1 = length (m_textureIDs sm)"
    by (simp_all add: sm1_def ids1_def)
  have n: "n = nat (m_loadedTextures sm1 - (i + 1))" using Suc.hyps(2) s1 by linarith
  have p1: "m_loadedTextures sm1 \<le> int (length (m_textureIDs sm1))"
    using Suc.prems s1 by simp
  have p2: "0 \<le> i + 1" using Suc.prems by simp
  have ni: "nat (i + 1) = Suc k" using Suc.prems by (simp add: k_def nat_add_distrib)
  from Suc.hyps(1)[OF n p1 p2, of gl1]
  obtain names ids where
    r: "DestroyGLTextures_loop (i + 1) gl1 sm1 =
            Inr (gl1\<lparr>gl_names := gl_names gl1 @ names\<rparr>, sm1\<lparr>m_textureIDs := ids\<rparr>)"
    and len: "length ids = length ids1"
    and tags: "map TEXTURE_INFO.tag ids = map TEXTURE_INFO.tag ids1"
    and tk: "take (Suc k) ids = take (Suc k) ids1"
    and dr: "drop L ids = drop L ids1"
    and nms: "names = map ID (drop (Suc k) (take L ids))"
    unfolding s1 ni L_def by blast
  have klen: "k < length ids" "k < length ids1" "k < length (m_textureIDs sm)"
    using kL len s1 by simp_all
  have idk: "ids ! k = ids1 ! k"
    using tk klen by (metis lessI nth_take)
  have idk': "ID (ids ! k) = nm" using idk klen by (simp add: ids1_def)
  have A: "gl1\<lparr>gl_names := gl_names gl1 @ names\<rparr> = gl\<lparr>gl_names := gl_names gl @ (nm # names)\<rparr>"
    by (simp add: gl1_def)
  have B: "sm1\<lparr>m_textureIDs := ids\<rparr> = sm\<lparr>m_textureIDs := ids\<rparr>"
    by (simp add: sm1_def)
  have C: "map TEXTURE_INFO.tag ids = map TEXTURE_INFO.tag (m_textureIDs sm)"
    unfolding tags ids1_def using klen by (simp add: map_update list_update_same_conv)
  have D: "take k ids = take k (m_textureIDs sm)"
  proof -
    have "take k ids = take k (take (Suc k) ids)" by (simp add: min_def)
    also have "\<dots> = take k (take (Suc k) ids1)" using tk by simp
    also have "\<dots> = take k ids1" by (simp add: min_def)
    also have "\<dots> = take k (m_textureIDs sm)" by (simp add: ids1_def)
    finally show ?thesis .
  qed
  have E: "drop L ids = drop L (m_textureIDs sm)"
    unfolding dr ids1_def using kL by simp
  have F: "nm # names = map ID (drop k (take L ids))"
  proof -
    have "k < length (take L ids)" using kL klen len s1 by simp
    then have "drop k (take L ids) = take L ids ! k # drop (Suc k) (take L ids)"
      by (rule Cons_nth_drop_Suc [symmetric])
    moreover have "take L ids ! k = ids ! k" using kL by simp
    ultimately show ?thesis using nms idk' by simp
  qed
  show ?case
    unfolding step r A B
    using C D E F len s1 unfolding k_def[symmetric] L_def[symmetric]
    by (intro exI[of _ "nm # names"] exI[of _ ids]) simp
qed

text \<open>
  C8. In a registry whose counter does not exceed the slot count, \<open>DestroyGLTextures\<close>
  generates one new texture name per registered entry and stores it in that entry's
  \<open>ID\<close>: the names handed out during teardown are, in order, the \<open>ID\<close>s the registered
  entries hold afterwards. No name is released, the counter and the tags are unchanged,
  and the slots beyond the counter are untouched.
\<close>

theorem DestroyGLTextures_regenerates:
  assumes "m_loadedTextures sm \<le> int (length (m_textureIDs sm))"
  shows "\<exists>gl' sm'. DestroyGLTextures gl sm = Inr (gl', sm') \<and>
           m_loadedTextures sm' = m_loadedTextures sm \<and>
           gl_deleted gl' = gl_deleted gl \<and>
           gl_names gl' =
             gl_names gl @ map ID (take (nat (m_loadedTextures sm)) (m_textureIDs sm')) \<and>
           map TEXTURE_INFO.tag (m_textureIDs sm') = map TEXTURE_INFO.tag (m_textureIDs sm) \<and>
           drop (nat (m_loadedTextures sm)) (m_textureIDs sm') =
             drop (nat (m_loadedTextures sm)) (m_textureIDs sm)"
proof -
  from DestroyGLTextures_loop_regenerates [OF assms, of 0 gl]
  obtain names ids where
    r: "DestroyGLTextures_loop 0 gl sm =
          Inr (gl\<lparr>gl_names := gl_names gl @ names\<rparr>, sm\<lparr>m_textureIDs := ids\<rparr>)"
    and tags: "map TEXTURE_INFO.tag ids = map TEXTURE_INFO.tag (m_textureIDs sm)"
    and rest: "drop (nat (m_loadedTextures sm)) ids =
                 drop (nat (m_loadedTextures sm)) (m_textureIDs sm)"
    and names: "names = map ID (drop (nat 0) (take (nat (m_loadedTextures sm)) ids))"
    by auto
  show ?thesis
    unfolding DestroyGLTextures_def r using tags rest names by simp
qed

theorem DestroyGLTextures_regenerates_witness:
  "m_loadedTextures wall_floor_scene \<le> int (length (m_textureIDs wall_floor_scene)) \<and>
   (\<exists>gl' sm'. DestroyGLTextures (gl_context [1, 2]) wall_floor_scene = Inr (gl', sm') \<and>
      m_loadedTextures sm' = 2 \<and> gl_deleted gl' = [] \<and> gl_names gl' = [1, 2, 3, 4] \<and>
      map ID (take 2 (m_textureIDs sm')) = [3, 4])"
proof -
  have ok: "m_loadedTextures wall_floor_scene \<le> int (length (m_textureIDs wall_floor_scene))"
    by (simp add: wall_floor_scene_def empty_scene_def)
  have run: "DestroyGLTextures (gl_context [1, 2]) wall_floor_scene =
      Inr ((gl_context [1, 2])\<lparr>gl_names := [1, 2, 3, 4]\<rparr>,
           wall_floor_scene\<lparr>m_textureIDs :=
             [\<lparr>ID = 3, tag = ''wall''\<rparr>, \<lparr>ID = 4, tag = ''floor''\<rparr>]
               @ replicate 14 \<lparr>ID = 0, tag = []\<rparr>\<rparr>)"
    by (simp add: DestroyGLTextures_def DestroyGLTextures_loop.simps wall_floor_scene_def
          empty_scene_def gl_context_def array_at_def array_put_def glGenTextures_def Let_def)
  have v: "m_loadedTextures wall_floor_scene = 2" "gl_names (gl_context [1, 2]) = [1, 2]"
    "gl_deleted (gl_context [1, 2]) = []"
    by (simp_all add: wall_floor_scene_def empty_scene_def gl_context_def)
  from DestroyGLTextures_regenerates [OF ok, of "gl_context [1, 2]"]
  obtain gl' sm' where
    r: "DestroyGLTextures (gl_context [1, 2]) wall_floor_scene = Inr (gl', sm')"
    and c: "m_loadedTextures sm' = m_loadedTextures wall_floor_scene"
    and d: "gl_deleted gl' = gl_deleted (gl_context [1, 2])"
    and n: "gl_names gl' = gl_names (gl_context [1, 2]) @
              map ID (take (nat (m_loadedTextures wall_floor_scene)) (m_textureIDs sm'))"
    by blast
  from r run have "gl' = (gl_context [1, 2])\<lparr>gl_names := [1, 2, 3, 4]\<rparr>" by simp
  then have "gl_names gl' = [1, 2, 3, 4]" by simp
  with n have "map ID (take 2 (m_textureIDs sm')) = [3, 4]" by (simp add: v)
  with ok r c d \<open>gl_names gl' = [1, 2, 3, 4]\<close> show ?thesis
    by (simp add: v)
qed

section \<open>Transform composer: results\<close>

text \<open>Applying a product to a vector applies the right factor first.\<close>

lemma mat_vec_times: "mat_vec (a * b) v = mat_vec a (mat_vec b v)"
proof (cases a; cases b; cases v)
  fix a0 a1 a2 a3 b0 b1 b2 b3 p q r s
  assume "a = mat4 a0 a1 a2 a3" "b = mat4 b0 b1 b2 b3" "v = vec4 p q r s"
  then show ?thesis
    by (cases a0; cases a1; cases a2; cases a3; cases b0; cases b1; cases b2; cases b3)
       (simp add: algebra_simps)
qed

lemma glm_rotate_zero:
  "glm_rotate (glm_radians 0) (vec3 1 0 0) = mat4_identity"
  "glm_rotate (glm_radians 0) (vec3 0 1 0) = mat4_identity"
  "glm_rotate (glm_radians 0) (vec3 0 0 1) = mat4_identity"
  by (simp_all add: glm_rotate_def glm_radians_def mat4_identity_def)

lemma mat4_identity_times: "mat4_identity * mat4_identity = mat4_identity"
  by (simp add: mat4_identity_def)

lemma modelView_identity:
  "modelView (vec3 1 1 1) 0 0 0 (vec3 0 0 0) = mat4_identity"
  by (simp add: modelView_def glm_rotate_zero mat4_identity_times) (simp add: mat4_identity_def)

text \<open>
  C2. For every scale vector, every three rotation angles in degrees and every
  translation vector, the model matrix that \<open>SetTransformations\<close> computes and hands to
  the shader manager under the name \<open>model\<close> is the product
  \<open>translate * rotateZ * rotateY * rotateX * scale\<close>. Applied to a vector it scales
  first, then rotates about X, Y and Z, and translates last. Without a shader manager
  nothing is written.
\<close>

theorem SetTransformations_composition_order:
  "modelView s xr yr zr p =
     glm_translate p * glm_rotate (glm_radians zr) (vec3 0 0 1)
       * glm_rotate (glm_radians yr) (vec3 0 1 0)
       * glm_rotate (glm_radians xr) (vec3 1 0 0) * glm_scale s \<and>
   mat_vec (modelView s xr yr zr p) v =
     mat_vec (glm_translate p)
       (mat_vec (glm_rotate (glm_radians zr) (vec3 0 0 1))
         (mat_vec (glm_rotate (glm_radians yr) (vec3 0 1 0))
           (mat_vec (glm_rotate (glm_radians xr) (vec3 1 0 0)) (mat_vec (glm_scale s) v)))) \<and>
   SetTransformations s xr yr zr p (sm\<lparr>m_pShaderManager := Some sh\<rparr>) =
     sm\<lparr>m_pShaderManager := Some (sh(''model'' \<mapsto> Mat4Value (
        glm_translate p * glm_rotate (glm_radians zr) (vec3 0 0 1)
          * glm_rotate (glm_radians yr) (vec3 0 1 0)
          * glm_rotate (glm_radians xr) (vec3 1 0 0) * glm_scale s)))\<rparr> \<and>
   SetTransformations s xr yr zr p (sm\<lparr>m_pShaderManager := None\<rparr>) =
     sm\<lparr>m_pShaderManager := None\<rparr>"
  by (simp add: SetTransformations_def setMat4Value_def g_ModelName_def modelView_def
        mat_vec_times)

text \<open>
  The order is observable: scaling by 2, turning a quarter about Z and moving by 5 along
  X takes the point \<open>(1, 0, 0)\<close> to \<open>(5, 2, 0)\<close>.
\<close>

theorem SetTransformations_composition_order_witness:
  "mat_vec (modelView (vec3 2 2 2) 0 0 90 (vec3 5 0 0)) (vec4 1 0 0 1) = vec4 5 2 0 1"
proof -
  have h: "mat_vec (glm_translate (vec3 5 0 0))
       (mat_vec (glm_rotate (glm_radians 90) (vec3 0 0 1))
         (mat_vec (glm_rotate (glm_radians 0) (vec3 0 1 0))
           (mat_vec (glm_rotate (glm_radians 0) (vec3 1 0 0))
             (mat_vec (glm_scale (vec3 2 2 2)) (vec4 1 0 0 1))))) = vec4 5 2 0 1"
    by (simp add: glm_rotate_def glm_radians_def)
  note order = SetTransformations_composition_order
                 [of "vec3 2 2 2" 0 0 90 "vec3 5 0 0" "vec4 1 0 0 1", THEN conjunct2,
                  THEN conjunct1]
  show ?thesis
    by (simp only: order h)
qed

text \<open>
  C7. With scale \<open>(1, 1, 1)\<close>, all three rotation angles 0 and translation
  \<open>(0, 0, 0)\<close>, the model matrix that \<open>SetTransformations\<close> composes and writes to the
  \<open>model\<close> uniform is the 4x4 identity matrix.
\<close>

theorem SetTransformations_identity:
  "modelView (vec3 1 1 1) 0 0 0 (vec3 0 0 0) =
     mat4 (vec4 1 0 0 0) (vec4 0 1 0 0) (vec4 0 0 1 0) (vec4 0 0 0 1) \<and>
   SetTransformations (vec3 1 1 1) 0 0 0 (vec3 0 0 0) (sm\<lparr>m_pShaderManager := Some sh\<rparr>) =
     sm\<lparr>m_pShaderManager := Some (sh(''model'' \<mapsto>
        Mat4Value (mat4 (vec4 1 0 0 0) (vec4 0 1 0 0) (vec4 0 0 1 0) (vec4 0 0 0 1))))\<rparr>"
  by (simp add: SetTransformations_def setMat4Value_def g_ModelName_def modelView_identity)
     (simp add: mat4_identity_def)

end
